theory Spec2Isabelle
  imports Main
begin

section \<open>Data model of the Synchronizer (packages/core/src/Synchronizer.ts)\<close>

text \<open>
  Field elements (\<open>BigInt\<close>, and their decimal strings in the database) are integers.
  Epochs, proof indexes and log positions (\<open>Number\<close>) are naturals.
\<close>

type_synonym field = int

text \<open>
  Every \<open>throw\<close> of the source, the \<open>TypeError\<close> of a property read on \<open>null\<close> or
  \<open>undefined\<close>, and the \<open>SyntaxError\<close> of \<open>JSON.parse\<close> on a missing column.
\<close>

datatype error =
    EpochNotCurrent
  | EpochInvalid
  | EpochKeyOutOfRange
  | EpochKeySealed
  | NoProofForAttestation
  | NoFromProof
  | NoTransitionProof
  | TypeErrorNull
  | JSONSyntaxError
  | UnrecognizedTopic
  | MultipleUnsealedEpochs
  | StateNotInitialized

datatype Circuit =
    userStateTransition
  | processAttestations
  | startTransition
  | proveUserSignUp
  | proveReputation
  | verifyEpochKey

text \<open>The \<open>event\<close> column of a Proof row.\<close>

datatype ProofEvent =
    IndexedEpochKeyProof
  | IndexedReputationProof
  | IndexedUserSignedUpProof
  | IndexedStartedTransitionProof
  | IndexedProcessedAttestationsProof
  | IndexedUserStateTransitionProof

subsection \<open>Rows of the store\<close>

record EpochDoc =
  number :: nat
  sealed :: bool
  epochRoot :: "field option"

record GSTLeafDoc =
  leaf_epoch :: nat
  leaf_transactionHash :: string
  leaf_hash :: field
  leaf_index :: nat

record GSTRootDoc =
  root_epoch :: nat
  root :: field

record EpochKeyDoc =
  key_epoch :: nat
  key :: field

text \<open>\<open>att_valid = None\<close> is the unset column of a freshly created row.\<close>

record AttestationDoc =
  att_epoch :: nat
  att_epochKey :: field
  att_index :: nat
  att_transactionHash :: string
  att_attester :: string
  att_proofIndex :: nat
  att_attesterId :: field
  att_posRep :: field
  att_negRep :: field
  att_graffiti :: field
  att_signUp :: bool
  att_hash :: field
  att_valid :: "bool option"

record NullifierDoc =
  nul_epoch :: nat
  nullifier :: field
  confirmed :: bool

text \<open>
  Optional columns are options: a handler that does not write a column leaves it
  \<open>None\<close> (\<open>undefined\<close> when read back).
\<close>

record ProofDoc =
  p_index :: nat
  p_epoch :: "nat option"
  p_proof :: "field list"
  p_publicSignals :: "field list option"
  p_transactionHash :: string
  p_event :: ProofEvent
  p_valid :: bool
  p_spent :: "bool option"
  p_blindedUserState :: "field option"
  p_blindedHashChain :: "field option"
  p_globalStateTree :: "field option"
  p_outputBlindedUserState :: "field option"
  p_outputBlindedHashChain :: "field option"
  p_inputBlindedUserState :: "field option"
  p_proofIndexRecords :: "nat list option"

record SynchronizerStateDoc =
  latestProcessedBlock :: nat
  latestProcessedTransactionIndex :: nat
  latestProcessedEventIndex :: nat
  latestCompleteBlock :: nat

text \<open>
  The store: one list of rows per collection, in insertion order;
  \<open>SynchronizerState\<close> is the singleton cursor, absent before \<open>start\<close>.
\<close>

record store =
  Epochs :: "EpochDoc list"
  GSTLeaves :: "GSTLeafDoc list"
  GSTRoots :: "GSTRootDoc list"
  EpochKeys :: "EpochKeyDoc list"
  Attestations :: "AttestationDoc list"
  Nullifiers :: "NullifierDoc list"
  Proofs :: "ProofDoc list"
  SynchronizerState :: "SynchronizerStateDoc option"

definition emptyStore :: store where
  "emptyStore = \<lparr>Epochs = [], GSTLeaves = [], GSTRoots = [], EpochKeys = [],
     Attestations = [], Nullifiers = [], Proofs = [], SynchronizerState = None\<rparr>"

text \<open>Queries of the store: \<open>findOne\<close> is the first matching row, \<open>count\<close> their number.\<close>

definition findOne :: "('a \<Rightarrow> bool) \<Rightarrow> 'a list \<Rightarrow> 'a option" where
  "findOne wh rows = List.find wh rows"

definition findMany :: "('a \<Rightarrow> bool) \<Rightarrow> 'a list \<Rightarrow> 'a list" where
  "findMany wh rows = filter wh rows"

definition count :: "('a \<Rightarrow> bool) \<Rightarrow> 'a list \<Rightarrow> nat" where
  "count wh rows = length (filter wh rows)"

subsection \<open>nullifierExist\<close>

text \<open>
  \<open>Boolean(count)\<close> of the Nullifier rows whose \<open>nullifier\<close> column equals the value;
  the \<open>where\<close> clause names no other column.
\<close>

definition nullifierExist :: "store \<Rightarrow> field \<Rightarrow> bool" where
  "nullifierExist s n = (count (\<lambda>r. nullifier r = n) (Nullifiers s) \<noteq> 0)"

subsection \<open>The index of an Attestation row\<close>

text \<open>
  The source computes the index as the template literal
  \<open>`${blockNumber}${transactionIndex}${logIndex}`\<close> converted by unary plus: the three
  decimal representations written one after the other, read back as one decimal number.
  (The rounding of \<open>Number\<close> above \<open>2^53\<close> is not modelled.)
\<close>

text \<open>A decimal string is the list of its digits, most significant first.\<close>

function decimal :: "nat \<Rightarrow> nat list" where
  "decimal n = (if n < 10 then [n] else decimal (n div 10) @ [n mod 10])"
  by pat_completeness auto
termination
  by (relation "measure id") auto

declare decimal.simps [simp del]

definition parseDecimal :: "nat list \<Rightarrow> nat" where
  "parseDecimal ds = foldl (\<lambda>acc d. 10 * acc + d) 0 ds"

definition attestationIndex :: "nat \<Rightarrow> nat \<Rightarrow> nat \<Rightarrow> nat" where
  "attestationIndex b t l = parseDecimal (decimal b @ decimal t @ decimal l)"

section \<open>Events\<close>

text \<open>
  An \<open>ethers.Event\<close> with its topics and data decoded: one constructor per topic of
  \<open>topicHandlers\<close>, two for the attestation (the current and the legacy topic), and one
  for any other topic.
\<close>

record AttestationArgs =
  a_epoch :: nat
  a_epochKey :: field
  a_attester :: string
  a_toProofIndex :: nat
  a_fromProofIndex :: nat
  a_attesterId :: field
  a_posRep :: field
  a_negRep :: field
  a_graffiti :: field
  a_signUp :: field

record SignUpProofArgs =
  su_epoch :: field
  su_epochKey :: field
  su_globalStateTree :: field
  su_attesterId :: field
  su_userHasSignedUp :: field
  su_proof :: "field list"

record EpochKeyProofArgs =
  ek_globalStateTree :: field
  ek_epoch :: field
  ek_epochKey :: field
  ek_proof :: "field list"

record ReputationProofArgs =
  rp_repNullifiers :: "field list"
  rp_epoch :: field
  rp_epochKey :: field
  rp_globalStateTree :: field
  rp_attesterId :: field
  rp_proveReputationAmount :: field
  rp_minRep :: field
  rp_proveGraffiti :: field
  rp_graffitiPreImage :: field
  rp_proof :: "field list"

record UserTransitionArgs =
  newGlobalStateTreeLeaf :: field
  epkNullifiers :: "field list"
  transitionFromEpoch :: field
  blindedUserStates :: "field list"
  fromGlobalStateTree :: field
  blindedHashChains :: "field list"
  fromEpochTree :: field
  ust_proof :: "field list"

datatype payload =
    UserSignedUp nat field nat nat
  | UserStateTransitioned nat field nat
  | AttestationSubmitted AttestationArgs
  | LegacyAttestationSubmitted AttestationArgs
  | EpochEnded nat
  | EpochKeyProofIndexed nat nat EpochKeyProofArgs
  | ReputationProofIndexed nat nat ReputationProofArgs
  | UserSignedUpProofIndexed nat nat SignUpProofArgs
  | StartedTransitionProofIndexed nat field field field "field list"
  | ProcessedAttestationsProofIndexed nat field field field "field list"
  | UserStateTransitionProofIndexed nat UserTransitionArgs "nat list"
  | OtherTopic

record event =
  blockNumber :: nat
  transactionIndex :: nat
  logIndex :: nat
  transactionHash :: string
  payload :: payload

section \<open>External collaborators\<close>

text \<open>
  The prover, the hash, the Merkle trees, the contract's settings and the classes of
  \<open>@unirep/contracts\<close> are outside the Synchronizer: they are parameters.
  \<open>smtRoot d z us\<close> is the root of the sparse tree of depth \<open>d\<close> and default leaf \<open>z\<close>
  after the updates \<open>us\<close>, \<open>imtRoot d z ls\<close> the root of the incremental tree after the
  inserts \<open>ls\<close>; \<open>decodeUserTransitionProof\<close> is the constructor of
  \<open>UserTransitionProof\<close> reading the stored public signals;
  \<open>nullifierConfirmedDefault\<close> is the schema's value of \<open>confirmed\<close> for a Nullifier row
  created without it.
\<close>

record env =
  hashLeftRight :: "field \<Rightarrow> field \<Rightarrow> field"
  verifyProof :: "Circuit \<Rightarrow> field list \<Rightarrow> field list \<Rightarrow> bool"
  SMT_ONE_LEAF :: field
  smtRoot :: "nat \<Rightarrow> field \<Rightarrow> (field \<times> field) list \<Rightarrow> field"
  imtRoot :: "nat \<Rightarrow> field \<Rightarrow> field list \<Rightarrow> field"
  computeEmptyUserStateRoot :: "nat \<Rightarrow> field"
  computeInitUserStateRoot :: "nat \<Rightarrow> nat \<Rightarrow> nat \<Rightarrow> field"
  attestationHash :: "field \<Rightarrow> field \<Rightarrow> field \<Rightarrow> field \<Rightarrow> field \<Rightarrow> field"
  decodeUserTransitionProof :: "field list \<Rightarrow> UserTransitionArgs"
  globalStateTreeDepth :: nat
  userStateTreeDepth :: nat
  epochTreeDepth :: nat
  nullifierConfirmedDefault :: bool

record SparseMerkleTree =
  smt_depth :: nat
  smt_zero :: field
  smt_updates :: "(field \<times> field) list"

definition genNewSMT :: "nat \<Rightarrow> field \<Rightarrow> SparseMerkleTree" where
  "genNewSMT d z = \<lparr>smt_depth = d, smt_zero = z, smt_updates = []\<rparr>"

definition smt_update :: "SparseMerkleTree \<Rightarrow> field \<Rightarrow> field \<Rightarrow> SparseMerkleTree" where
  "smt_update t k v = t\<lparr>smt_updates := smt_updates t @ [(k, v)]\<rparr>"

definition smt_root :: "env \<Rightarrow> SparseMerkleTree \<Rightarrow> field" where
  "smt_root env t = smtRoot env (smt_depth t) (smt_zero t) (smt_updates t)"

record IncrementalMerkleTree =
  imt_depth :: nat
  imt_zero :: field
  imt_leaves :: "field list"

definition newIMT :: "nat \<Rightarrow> field \<Rightarrow> IncrementalMerkleTree" where
  "newIMT d z = \<lparr>imt_depth = d, imt_zero = z, imt_leaves = []\<rparr>"

definition imt_insert :: "IncrementalMerkleTree \<Rightarrow> field \<Rightarrow> IncrementalMerkleTree" where
  "imt_insert t l = t\<lparr>imt_leaves := imt_leaves t @ [l]\<rparr>"

definition imt_root :: "env \<Rightarrow> IncrementalMerkleTree \<Rightarrow> field" where
  "imt_root env t = imtRoot env (imt_depth t) (imt_zero t) (imt_leaves t)"

text \<open>The Synchronizer: the store and the in-memory global state tree of the current epoch.\<close>

record synchronizer =
  db :: store
  globalStateTree :: IncrementalMerkleTree

definition defaultGSTLeaf :: "env \<Rightarrow> field" where
  "defaultGSTLeaf env =
     hashLeftRight env 0 (computeEmptyUserStateRoot env (userStateTreeDepth env))"

section \<open>The transaction writer\<close>

text \<open>
  A handler reads the store as it was before the event (\<open>this._db\<close>) and queues its
  writes on the transaction (\<open>db.create\<close>, \<open>db.update\<close>, \<open>db.upsert\<close>, \<open>db.delete\<close>);
  the queue is applied in order when the transaction commits. One constructor per
  write the handlers queue.
\<close>

datatype db_op =
    UpsertEpochSealed nat field
  | CreateEpoch EpochDoc
  | CreateAttestation AttestationDoc
  | UpdateAttestationValid nat field "nat option" bool
  | UpdateProofSpent nat nat
  | UpsertEpochKey nat field
  | DeleteUnconfirmedNullifiers "field list"
  | CreateNullifiers nat "field list"
  | CreateGSTLeaf GSTLeafDoc
  | CreateGSTRoot GSTRootDoc
  | CreateProof ProofDoc
  | UpdateSynchronizerState nat nat nat

fun apply_op :: "env \<Rightarrow> store \<Rightarrow> db_op \<Rightarrow> store" where
  "apply_op env s (UpsertEpochSealed e r) =
     (if \<exists>d \<in> set (Epochs s). number d = e
      then s\<lparr>Epochs := map (\<lambda>d. if number d = e then d\<lparr>sealed := True, epochRoot := Some r\<rparr> else d)
                          (Epochs s)\<rparr>
      else s\<lparr>Epochs := Epochs s @ [\<lparr>number = e, sealed = True, epochRoot = Some r\<rparr>]\<rparr>)"
| "apply_op env s (CreateEpoch d) = s\<lparr>Epochs := Epochs s @ [d]\<rparr>"
| "apply_op env s (CreateAttestation a) = s\<lparr>Attestations := Attestations s @ [a]\<rparr>"
| "apply_op env s (UpdateAttestationValid e k pi v) =
     s\<lparr>Attestations :=
        map (\<lambda>a. if att_epoch a = e \<and> att_epochKey a = k
                    \<and> (case pi of None \<Rightarrow> True | Some i \<Rightarrow> att_proofIndex a = i)
                  then a\<lparr>att_valid := Some v\<rparr> else a)
            (Attestations s)\<rparr>"
| "apply_op env s (UpdateProofSpent e i) =
     s\<lparr>Proofs := map (\<lambda>p. if p_epoch p = Some e \<and> p_index p = i then p\<lparr>p_spent := Some True\<rparr> else p)
                       (Proofs s)\<rparr>"
| "apply_op env s (UpsertEpochKey e k) =
     (if \<exists>d \<in> set (EpochKeys s). key_epoch d = e \<and> key d = k then s
      else s\<lparr>EpochKeys := EpochKeys s @ [\<lparr>key_epoch = e, key = k\<rparr>]\<rparr>)"
| "apply_op env s (DeleteUnconfirmedNullifiers ns) =
     s\<lparr>Nullifiers := filter (\<lambda>r. \<not> (nullifier r \<in> set ns \<and> confirmed r = False)) (Nullifiers s)\<rparr>"
| "apply_op env s (CreateNullifiers e ns) =
     s\<lparr>Nullifiers := Nullifiers s
        @ map (\<lambda>n. \<lparr>nul_epoch = e, nullifier = n, confirmed = nullifierConfirmedDefault env\<rparr>) ns\<rparr>"
| "apply_op env s (CreateGSTLeaf l) = s\<lparr>GSTLeaves := GSTLeaves s @ [l]\<rparr>"
| "apply_op env s (CreateGSTRoot r) = s\<lparr>GSTRoots := GSTRoots s @ [r]\<rparr>"
| "apply_op env s (CreateProof p) = s\<lparr>Proofs := Proofs s @ [p]\<rparr>"
| "apply_op env s (UpdateSynchronizerState b t l) =
     s\<lparr>SynchronizerState :=
        map_option (\<lambda>c. c\<lparr>latestProcessedBlock := b, latestProcessedTransactionIndex := t,
                             latestProcessedEventIndex := l\<rparr>) (SynchronizerState s)\<rparr>"

definition commit :: "env \<Rightarrow> store \<Rightarrow> db_op list \<Rightarrow> store" where
  "commit env s ops = foldl (apply_op env) s ops"

section \<open>Shared checks and queries\<close>

fun maxEpochDoc :: "EpochDoc list \<Rightarrow> EpochDoc option" where
  "maxEpochDoc [] = None"
| "maxEpochDoc (d # ds) =
     (case maxEpochDoc ds of
        None \<Rightarrow> Some d
      | Some m \<Rightarrow> if number d < number m then Some m else Some d)"

text \<open>\<open>findOne('Epoch', orderBy number desc)\<close>, or the default first epoch.\<close>

definition loadCurrentEpoch :: "store \<Rightarrow> EpochDoc" where
  "loadCurrentEpoch s =
     (case maxEpochDoc (Epochs s) of
        None \<Rightarrow> \<lparr>number = 1, sealed = False, epochRoot = None\<rparr>
      | Some d \<Rightarrow> d)"

text \<open>The checks return the error they throw (\<open>None\<close>: they return normally).\<close>

definition checkCurrentEpoch :: "store \<Rightarrow> nat \<Rightarrow> error option" where
  "checkCurrentEpoch s e = (if e \<noteq> number (loadCurrentEpoch s) then Some EpochNotCurrent else None)"

definition checkValidEpoch :: "store \<Rightarrow> nat \<Rightarrow> error option" where
  "checkValidEpoch s e = (if e > number (loadCurrentEpoch s) then Some EpochInvalid else None)"

definition checkEpochKeyRange :: "env \<Rightarrow> field \<Rightarrow> error option" where
  "checkEpochKeyRange env k = (if k \<ge> 2 ^ epochTreeDepth env then Some EpochKeyOutOfRange else None)"

definition isEpochKeySealed :: "store \<Rightarrow> nat \<Rightarrow> field \<Rightarrow> error option" where
  "isEpochKeySealed s e k =
     (case findOne (\<lambda>d. key_epoch d = e \<and> key d = k) (EpochKeys s) of
        None \<Rightarrow> None
      | Some d \<Rightarrow>
          (case findOne (\<lambda>x. number x = key_epoch d) (Epochs s) of
             None \<Rightarrow> None
           | Some epochDoc \<Rightarrow> if sealed epochDoc then Some EpochKeySealed else None))"

definition GSTRootExists :: "store \<Rightarrow> field \<Rightarrow> nat \<Rightarrow> error + bool" where
  "GSTRootExists s r e =
     (case checkValidEpoch s e of
        Some err \<Rightarrow> Inl err
      | None \<Rightarrow> Inr (findOne (\<lambda>d. root_epoch d = e \<and> root d = r) (GSTRoots s) \<noteq> None))"

subsection \<open>genEpochTree\<close>

fun hashChainLoop :: "env \<Rightarrow> field \<Rightarrow> AttestationDoc list \<Rightarrow> field" where
  "hashChainLoop env hashChain [] = hashChain"
| "hashChainLoop env hashChain (a # as) = hashChainLoop env (hashLeftRight env (att_hash a) hashChain) as"

definition validAttestations :: "store \<Rightarrow> nat \<Rightarrow> field \<Rightarrow> AttestationDoc list" where
  "validAttestations s e k =
     sort_key att_index
       (findMany (\<lambda>a. att_epoch a = e \<and> att_epochKey a = k \<and> att_valid a = Some True) (Attestations s))"

fun epochTreeLeaves :: "env \<Rightarrow> store \<Rightarrow> nat \<Rightarrow> EpochKeyDoc list \<Rightarrow> error + (field \<times> field) list" where
  "epochTreeLeaves env s e [] = Inr []"
| "epochTreeLeaves env s e (epochKey # rest) =
     (case checkEpochKeyRange env (key epochKey) of
        Some err \<Rightarrow> Inl err
      | None \<Rightarrow>
          (let sealedHashChainResult =
                 hashLeftRight env 1 (hashChainLoop env 0 (validAttestations s e (key epochKey)))
           in case epochTreeLeaves env s e rest of
                Inl err \<Rightarrow> Inl err
              | Inr leaves \<Rightarrow> Inr ((key epochKey, sealedHashChainResult) # leaves)))"

fun updateLeaves :: "SparseMerkleTree \<Rightarrow> (field \<times> field) list \<Rightarrow> SparseMerkleTree" where
  "updateLeaves t [] = t"
| "updateLeaves t (leaf # leaves) = updateLeaves (smt_update t (fst leaf) (snd leaf)) leaves"

definition genEpochTree :: "env \<Rightarrow> store \<Rightarrow> nat \<Rightarrow> error + SparseMerkleTree" where
  "genEpochTree env s e =
     (case checkValidEpoch s e of
        Some err \<Rightarrow> Inl err
      | None \<Rightarrow>
          (case epochTreeLeaves env s e (findMany (\<lambda>d. key_epoch d = e) (EpochKeys s)) of
             Inl err \<Rightarrow> Inl err
           | Inr leaves \<Rightarrow> Inr (updateLeaves (genNewSMT (epochTreeDepth env) (SMT_ONE_LEAF env)) leaves)))"

subsection \<open>The method setup of the Synchronizer\<close>



section \<open>Event handlers\<close>

text \<open>
  A handler returns the error it throws, or the writes it queued on the transaction
  together with the in-memory tree it leaves.
\<close>

type_synonym handled = "error + (db_op list \<times> IncrementalMerkleTree)"

definition epochEndedEvent :: "env \<Rightarrow> synchronizer \<Rightarrow> nat \<Rightarrow> handled" where
  "epochEndedEvent env S epoch =
     (case genEpochTree env (db S) epoch of
        Inl err \<Rightarrow> Inl err
      | Inr tree \<Rightarrow>
          Inr ([UpsertEpochSealed epoch (smt_root env tree),
                CreateEpoch \<lparr>number = epoch + 1, sealed = False, epochRoot = None\<rparr>],
               newIMT (globalStateTreeDepth env) (defaultGSTLeaf env)))"

definition attestationEvent :: "env \<Rightarrow> synchronizer \<Rightarrow> event \<Rightarrow> AttestationArgs \<Rightarrow> handled" where
  "attestationEvent env S ev a =
     (case checkCurrentEpoch (db S) (a_epoch a) of Some err \<Rightarrow> Inl err | None \<Rightarrow>
     (case checkEpochKeyRange env (a_epochKey a) of Some err \<Rightarrow> Inl err | None \<Rightarrow>
     (case isEpochKeySealed (db S) (a_epoch a) (a_epochKey a) of Some err \<Rightarrow> Inl err | None \<Rightarrow>
      (let created = CreateAttestation
             \<lparr>att_epoch = a_epoch a,
              att_epochKey = a_epochKey a,
              att_index = attestationIndex (blockNumber ev) (transactionIndex ev) (logIndex ev),
              att_transactionHash = transactionHash ev,
              att_attester = a_attester a,
              att_proofIndex = a_toProofIndex a,
              att_attesterId = a_attesterId a,
              att_posRep = a_posRep a,
              att_negRep = a_negRep a,
              att_graffiti = a_graffiti a,
              att_signUp = (a_signUp a \<noteq> 0),
              att_hash = attestationHash env (a_attesterId a) (a_posRep a) (a_negRep a)
                           (a_graffiti a) (a_signUp a),
              att_valid = None\<rparr>
       in
       case findOne (\<lambda>p. p_epoch p = Some (a_epoch a) \<and> p_index p = a_toProofIndex a)
              (Proofs (db S)) of
         None \<Rightarrow> Inl NoProofForAttestation
       | Some validProof \<Rightarrow>
           if \<not> p_valid validProof then
             Inr ([created,
                   UpdateAttestationValid (a_epoch a) (a_epochKey a) (Some (a_toProofIndex a)) False],
                  globalStateTree S)
           else if a_fromProofIndex a \<noteq> 0 then
             (case findOne (\<lambda>p. p_epoch p = Some (a_epoch a) \<and> p_index p = a_fromProofIndex a)
                     (Proofs (db S)) of
                None \<Rightarrow> Inl NoFromProof
              | Some fromValidProof \<Rightarrow>
                  if \<not> p_valid fromValidProof \<or> p_spent fromValidProof = Some True then
                    Inr ([created,
                          UpdateAttestationValid (a_epoch a) (a_epochKey a)
                            (Some (a_fromProofIndex a)) False],
                         globalStateTree S)
                  else
                    Inr ([created,
                          UpdateProofSpent (a_epoch a) (a_fromProofIndex a),
                          UpdateAttestationValid (a_epoch a) (a_epochKey a) None True,
                          UpsertEpochKey (a_epoch a) (a_epochKey a)],
                         globalStateTree S))
           else
             Inr ([created,
                   UpdateAttestationValid (a_epoch a) (a_epochKey a) None True,
                   UpsertEpochKey (a_epoch a) (a_epochKey a)],
                  globalStateTree S)))))"

subsection \<open>Indexed proof events\<close>

definition newProofDoc :: "nat \<Rightarrow> ProofEvent \<Rightarrow> string \<Rightarrow> field list \<Rightarrow> bool \<Rightarrow> ProofDoc" where
  "newProofDoc i e h prf v =
     \<lparr>p_index = i, p_epoch = None, p_proof = prf, p_publicSignals = None,
      p_transactionHash = h, p_event = e, p_valid = v, p_spent = None,
      p_blindedUserState = None, p_blindedHashChain = None, p_globalStateTree = None,
      p_outputBlindedUserState = None, p_outputBlindedHashChain = None,
      p_inputBlindedUserState = None, p_proofIndexRecords = None\<rparr>"

definition USTProofEvent :: "env \<Rightarrow> synchronizer \<Rightarrow> event \<Rightarrow> nat \<Rightarrow> UserTransitionArgs \<Rightarrow> nat list \<Rightarrow> handled" where
  "USTProofEvent env S ev proofIndex args proofIndexRecords =
     (let formatPublicSignals =
            [newGlobalStateTreeLeaf args] @ epkNullifiers args @ [transitionFromEpoch args]
            @ blindedUserStates args @ [fromGlobalStateTree args] @ blindedHashChains args
            @ [fromEpochTree args];
          isValid = verifyProof env userStateTransition formatPublicSignals (ust_proof args)
      in
      case GSTRootExists (db S) (fromGlobalStateTree args) (nat (transitionFromEpoch args)) of
        Inl err \<Rightarrow> Inl err
      | Inr exist \<Rightarrow>
          (case blindedUserStates args of
             [] \<Rightarrow> Inl TypeErrorNull
           | b # _ \<Rightarrow>
               Inr ([CreateProof
                      ((newProofDoc proofIndex IndexedUserStateTransitionProof (transactionHash ev)
                          (ust_proof args) (isValid \<and> exist))
                       \<lparr>p_publicSignals := Some formatPublicSignals,
                        p_blindedUserState := Some b,
                        p_globalStateTree := Some (fromGlobalStateTree args),
                        p_proofIndexRecords := Some proofIndexRecords\<rparr>)],
                    globalStateTree S)))"

definition processAttestationProofEvent ::
  "env \<Rightarrow> synchronizer \<Rightarrow> event \<Rightarrow> nat \<Rightarrow> field \<Rightarrow> field \<Rightarrow> field \<Rightarrow> field list \<Rightarrow> handled" where
  "processAttestationProofEvent env S ev proofIndex inputBlindedUserState outputBlindedUserState
       outputBlindedHashChain prf =
     (let formatPublicSignals = [outputBlindedUserState, outputBlindedHashChain, inputBlindedUserState];
          isValid = verifyProof env processAttestations formatPublicSignals prf
      in
      Inr ([CreateProof
             ((newProofDoc proofIndex IndexedProcessedAttestationsProof (transactionHash ev) prf isValid)
              \<lparr>p_outputBlindedUserState := Some outputBlindedUserState,
               p_outputBlindedHashChain := Some outputBlindedHashChain,
               p_inputBlindedUserState := Some inputBlindedUserState,
               p_globalStateTree := Some 0\<rparr>)],
           globalStateTree S))"

definition startUSTProofEvent ::
  "env \<Rightarrow> synchronizer \<Rightarrow> event \<Rightarrow> nat \<Rightarrow> field \<Rightarrow> field \<Rightarrow> field \<Rightarrow> field list \<Rightarrow> handled" where
  "startUSTProofEvent env S ev proofIndex blindedUserState gst blindedHashChain prf =
     (let formatPublicSignals = [blindedUserState, blindedHashChain, gst];
          isValid = verifyProof env startTransition formatPublicSignals prf
      in
      Inr ([CreateProof
             ((newProofDoc proofIndex IndexedStartedTransitionProof (transactionHash ev) prf isValid)
              \<lparr>p_blindedUserState := Some blindedUserState,
               p_blindedHashChain := Some blindedHashChain,
               p_globalStateTree := Some gst\<rparr>)],
           globalStateTree S))"

definition userSignedUpProofEvent :: "env \<Rightarrow> synchronizer \<Rightarrow> event \<Rightarrow> nat \<Rightarrow> nat \<Rightarrow> SignUpProofArgs \<Rightarrow> handled" where
  "userSignedUpProofEvent env S ev proofIndex epoch args =
     (let formatPublicSignals =
            [su_epoch args, su_epochKey args, su_globalStateTree args, su_attesterId args,
             su_userHasSignedUp args];
          isValid = verifyProof env proveUserSignUp formatPublicSignals (su_proof args)
      in
      case GSTRootExists (db S) (su_globalStateTree args) epoch of
        Inl err \<Rightarrow> Inl err
      | Inr exist \<Rightarrow>
          Inr ([CreateProof
                 ((newProofDoc proofIndex IndexedUserSignedUpProof (transactionHash ev)
                     (su_proof args) (isValid \<and> exist))
                  \<lparr>p_epoch := Some epoch,
                   p_publicSignals := Some formatPublicSignals,
                   p_globalStateTree := Some (su_globalStateTree args)\<rparr>)],
               globalStateTree S))"

definition reputationProofEvent :: "env \<Rightarrow> synchronizer \<Rightarrow> event \<Rightarrow> nat \<Rightarrow> nat \<Rightarrow> ReputationProofArgs \<Rightarrow> handled" where
  "reputationProofEvent env S ev proofIndex epoch args =
     (let formatPublicSignals =
            rp_repNullifiers args
            @ [rp_epoch args, rp_epochKey args, rp_globalStateTree args, rp_attesterId args,
               rp_proveReputationAmount args, rp_minRep args, rp_proveGraffiti args,
               rp_graffitiPreImage args];
          isValid = verifyProof env proveReputation formatPublicSignals (rp_proof args)
      in
      case GSTRootExists (db S) (rp_globalStateTree args) epoch of
        Inl err \<Rightarrow> Inl err
      | Inr exist \<Rightarrow>
          (let repNullifiers = filter (\<lambda>n. n \<noteq> 0) (rp_repNullifiers args);
               existingNullifier =
                 findOne (\<lambda>r. nullifier r \<in> set repNullifiers \<and> confirmed r = True)
                   (Nullifiers (db S));
               created = CreateProof
                 ((newProofDoc proofIndex IndexedReputationProof (transactionHash ev)
                     (rp_proof args) (isValid \<and> exist \<and> existingNullifier = None))
                  \<lparr>p_epoch := Some epoch,
                   p_publicSignals := Some formatPublicSignals,
                   p_globalStateTree := Some (rp_globalStateTree args)\<rparr>)
           in
           if existingNullifier \<noteq> None then Inr ([created], globalStateTree S)
           else
             Inr ([DeleteUnconfirmedNullifiers repNullifiers,
                   CreateNullifiers epoch repNullifiers,
                   created],
                  globalStateTree S)))"

definition epochKeyProofEvent :: "env \<Rightarrow> synchronizer \<Rightarrow> event \<Rightarrow> nat \<Rightarrow> nat \<Rightarrow> EpochKeyProofArgs \<Rightarrow> handled" where
  "epochKeyProofEvent env S ev proofIndex epoch args =
     (let formatPublicSignals = [ek_globalStateTree args, ek_epoch args, ek_epochKey args];
          isValid = verifyProof env verifyEpochKey formatPublicSignals (ek_proof args)
      in
      case GSTRootExists (db S) (ek_globalStateTree args) epoch of
        Inl err \<Rightarrow> Inl err
      | Inr exist \<Rightarrow>
          Inr ([CreateProof
                 ((newProofDoc proofIndex IndexedEpochKeyProof (transactionHash ev)
                     (ek_proof args) (isValid \<and> exist))
                  \<lparr>p_epoch := Some epoch,
                   p_publicSignals := Some formatPublicSignals,
                   p_globalStateTree := Some (ek_globalStateTree args)\<rparr>)],
               globalStateTree S))"

subsection \<open>UserSignedUp\<close>

definition userSignedUpEvent :: "env \<Rightarrow> synchronizer \<Rightarrow> event \<Rightarrow> nat \<Rightarrow> field \<Rightarrow> nat \<Rightarrow> nat \<Rightarrow> handled" where
  "userSignedUpEvent env S ev epoch idCommitment attesterId airdrop =
     (case checkCurrentEpoch (db S) epoch of
        Some err \<Rightarrow> Inl err
      | None \<Rightarrow>
          (let USTRoot = computeInitUserStateRoot env (userStateTreeDepth env) attesterId airdrop;
               newGSTLeaf = hashLeftRight env idCommitment USTRoot;
               tree = imt_insert (globalStateTree S) newGSTLeaf;
               leafIndexInEpoch = count (\<lambda>l. leaf_epoch l = epoch) (GSTLeaves (db S))
           in
           Inr ([CreateGSTLeaf \<lparr>leaf_epoch = epoch, leaf_transactionHash = transactionHash ev,
                                 leaf_hash = newGSTLeaf, leaf_index = leafIndexInEpoch\<rparr>,
                 CreateGSTRoot \<lparr>root_epoch = epoch, root = imt_root env tree\<rparr>],
                tree)))"

subsection \<open>UserStateTransitioned\<close>

text \<open>
  The loop over \<open>proofIndexRecords[1..]\<close>: \<open>False\<close> is one of its logged returns.
\<close>

fun processAttestationsLoop :: "ProofDoc list \<Rightarrow> field option \<Rightarrow> nat list \<Rightarrow> bool" where
  "processAttestationsLoop ps currentBlindedUserState [] = True"
| "processAttestationsLoop ps currentBlindedUserState (i # rest) =
     (case findOne (\<lambda>p. p_event p = IndexedProcessedAttestationsProof \<and> p_index p = i) ps of
        None \<Rightarrow> False
      | Some processAttestationsProof \<Rightarrow>
          if \<not> p_valid processAttestationsProof then False
          else if currentBlindedUserState \<noteq> p_inputBlindedUserState processAttestationsProof then False
          else processAttestationsLoop ps (p_outputBlindedUserState processAttestationsProof) rest)"

text \<open>
  The loop over the blinded hash chains. \<open>findBlindHC.index\<close> is read without a test of
  \<open>findBlindHC\<close>: when the query finds no row the read is a \<open>TypeError\<close>.
\<close>

definition findBlindHC :: "ProofDoc list \<Rightarrow> nat list \<Rightarrow> field \<Rightarrow> ProofDoc option" where
  "findBlindHC ps proofIndexRecords blindedHC =
     findOne (\<lambda>p. p_outputBlindedHashChain p = Some blindedHC
                 \<and> (p_event p = IndexedStartedTransitionProof
                    \<or> p_event p = IndexedProcessedAttestationsProof)
                 \<and> p_index p \<in> set proofIndexRecords) ps"

fun blindedHashChainLoop :: "ProofDoc list \<Rightarrow> nat list \<Rightarrow> field list \<Rightarrow> error + bool" where
  "blindedHashChainLoop ps proofIndexRecords [] = Inr True"
| "blindedHashChainLoop ps proofIndexRecords (blindedHC # rest) =
     (case findBlindHC ps proofIndexRecords blindedHC of
        None \<Rightarrow> Inl TypeErrorNull
      | Some found \<Rightarrow>
          if p_index found \<notin> set proofIndexRecords then Inr False
          else blindedHashChainLoop ps proofIndexRecords rest)"

text \<open>
  \<open>proofIndexRecords[0]\<close> of an empty array is \<open>undefined\<close>; no row has an undefined
  index, so the query for the start-transition proof finds none.
\<close>

definition findStartTransitionProof :: "ProofDoc list \<Rightarrow> nat list \<Rightarrow> ProofDoc option" where
  "findStartTransitionProof ps proofIndexRecords =
     (case proofIndexRecords of
        [] \<Rightarrow> None
      | i # _ \<Rightarrow> findOne (\<lambda>p. p_event p = IndexedStartedTransitionProof \<and> p_index p = i) ps)"

definition USTEvent :: "env \<Rightarrow> synchronizer \<Rightarrow> event \<Rightarrow> nat \<Rightarrow> field \<Rightarrow> nat \<Rightarrow> handled" where
  "USTEvent env S ev epoch leaf proofIndex =
     (let noop = Inr ([], globalStateTree S) in
      case findOne (\<lambda>p. p_index p = proofIndex \<and> p_event p = IndexedUserStateTransitionProof)
             (Proofs (db S)) of
        None \<Rightarrow> Inl NoTransitionProof
      | Some transitionProof \<Rightarrow>
      if \<not> p_valid transitionProof \<or> p_event transitionProof \<noteq> IndexedUserStateTransitionProof
      then noop
      else
      (case p_proofIndexRecords transitionProof of
        None \<Rightarrow> Inl TypeErrorNull
      | Some proofIndexRecords \<Rightarrow>
      (case findStartTransitionProof (Proofs (db S)) proofIndexRecords of
        None \<Rightarrow> Inl TypeErrorNull
      | Some startTransitionProof \<Rightarrow>
      if \<not> p_valid startTransitionProof then
        (case p_proofIndexRecords startTransitionProof of
           None \<Rightarrow> Inl TypeErrorNull
         | Some _ \<Rightarrow> noop)
      else if p_blindedUserState startTransitionProof \<noteq> p_blindedUserState transitionProof
              \<or> p_globalStateTree startTransitionProof \<noteq> p_globalStateTree transitionProof
      then noop
      else if \<not> processAttestationsLoop (Proofs (db S)) (p_blindedUserState startTransitionProof)
                   (tl proofIndexRecords)
      then noop
      else
      (case p_publicSignals transitionProof of
        None \<Rightarrow> Inl JSONSyntaxError
      | Some publicSignals \<Rightarrow>
      (let formatProof = decodeUserTransitionProof env publicSignals in
       case blindedHashChainLoop (Proofs (db S)) proofIndexRecords (blindedHashChains formatProof) of
         Inl err \<Rightarrow> Inl err
       | Inr matched \<Rightarrow>
       if \<not> matched then noop
       else
       (let fromEpoch = nat (transitionFromEpoch formatProof);
            gstRoot = fromGlobalStateTree formatProof;
            epochTreeRoot = fromEpochTree formatProof;
            nullifiers = filter (\<lambda>n. n \<noteq> 0) (epkNullifiers formatProof)
        in
        case checkValidEpoch (db S) fromEpoch of
          Some err \<Rightarrow> Inl err
        | None \<Rightarrow>
        if findOne (\<lambda>d. root_epoch d = fromEpoch \<and> root d = gstRoot) (GSTRoots (db S)) = None
        then noop
        else if findOne (\<lambda>d. number d = fromEpoch \<and> epochRoot d = Some epochTreeRoot)
                  (Epochs (db S)) = None
        then noop
        else if findOne (\<lambda>r. nullifier r \<in> set nullifiers \<and> confirmed r = True)
                  (Nullifiers (db S)) \<noteq> None
        then noop
        else
          (let tree = imt_insert (globalStateTree S) leaf;
               leafIndexInEpoch = count (\<lambda>l. leaf_epoch l = epoch) (GSTLeaves (db S))
           in
           Inr ([DeleteUnconfirmedNullifiers nullifiers,
                 CreateNullifiers epoch nullifiers,
                 CreateGSTLeaf \<lparr>leaf_epoch = epoch, leaf_transactionHash = transactionHash ev,
                                 leaf_hash = leaf, leaf_index = leafIndexInEpoch\<rparr>,
                 CreateGSTRoot \<lparr>root_epoch = epoch, root = imt_root env tree\<rparr>],
                tree))))))))"

section \<open>The ingestor\<close>

text \<open>
  \<open>topicHandlers\<close>: the handler bound to the event's topic, applied to the event; \<open>None\<close>
  when the topic has no handler. Both attestation topics are bound to
  \<open>attestationEvent\<close>.
\<close>

definition topicHandlers :: "env \<Rightarrow> synchronizer \<Rightarrow> event \<Rightarrow> handled option" where
  "topicHandlers env S ev =
     (case payload ev of
        UserSignedUp epoch idCommitment attesterId airdrop \<Rightarrow>
          Some (userSignedUpEvent env S ev epoch idCommitment attesterId airdrop)
      | UserStateTransitioned epoch leaf proofIndex \<Rightarrow> Some (USTEvent env S ev epoch leaf proofIndex)
      | AttestationSubmitted a \<Rightarrow> Some (attestationEvent env S ev a)
      | LegacyAttestationSubmitted a \<Rightarrow> Some (attestationEvent env S ev a)
      | EpochEnded epoch \<Rightarrow> Some (epochEndedEvent env S epoch)
      | EpochKeyProofIndexed proofIndex epoch args \<Rightarrow>
          Some (epochKeyProofEvent env S ev proofIndex epoch args)
      | ReputationProofIndexed proofIndex epoch args \<Rightarrow>
          Some (reputationProofEvent env S ev proofIndex epoch args)
      | UserSignedUpProofIndexed proofIndex epoch args \<Rightarrow>
          Some (userSignedUpProofEvent env S ev proofIndex epoch args)
      | StartedTransitionProofIndexed proofIndex blindedUserState gst blindedHashChain prf \<Rightarrow>
          Some (startUSTProofEvent env S ev proofIndex blindedUserState gst blindedHashChain prf)
      | ProcessedAttestationsProofIndexed proofIndex inputBUS outputBUS outputBHC prf \<Rightarrow>
          Some (processAttestationProofEvent env S ev proofIndex inputBUS outputBUS outputBHC prf)
      | UserStateTransitionProofIndexed proofIndex args proofIndexRecords \<Rightarrow>
          Some (USTProofEvent env S ev proofIndex args proofIndexRecords)
      | OtherTopic \<Rightarrow> None)"

text \<open>
  One store transaction: the handler's writes and the cursor update commit together; an
  error leaves the store as it was.
\<close>

definition transaction :: "env \<Rightarrow> synchronizer \<Rightarrow> event \<Rightarrow> error + synchronizer" where
  "transaction env S ev =
     (case topicHandlers env S ev of
        None \<Rightarrow> Inl UnrecognizedTopic
      | Some handled \<Rightarrow>
          (case handled of
             Inl err \<Rightarrow> Inl err
           | Inr (ops, tree) \<Rightarrow>
               Inr \<lparr>db = commit env (db S)
                           (ops @ [UpdateSynchronizerState (blockNumber ev) (transactionIndex ev)
                                     (logIndex ev)]),
                    globalStateTree = tree\<rparr>))"

text \<open>The comparator of \<open>events.sort\<close>, and the stable sort it drives.\<close>

definition compareEvents :: "event \<Rightarrow> event \<Rightarrow> int" where
  "compareEvents a b =
     (if blockNumber a \<noteq> blockNumber b then int (blockNumber a) - int (blockNumber b)
      else if transactionIndex a \<noteq> transactionIndex b
      then int (transactionIndex a) - int (transactionIndex b)
      else int (logIndex a) - int (logIndex b))"

fun insertEvent :: "event \<Rightarrow> event list \<Rightarrow> event list" where
  "insertEvent x [] = [x]"
| "insertEvent x (y # ys) = (if compareEvents x y \<le> 0 then x # y # ys else y # insertEvent x ys)"

definition sortEvents :: "event list \<Rightarrow> event list" where
  "sortEvents events = foldr insertEvent events []"

text \<open>
  The loop of \<open>processEvents\<close> over the sorted events. The first component of the result
  lists the events whose handler was invoked, in the order of the invocations; the loop
  stops at the first error, which \<open>processEvents\<close> throws again.
\<close>

fun processSorted :: "env \<Rightarrow> synchronizer \<Rightarrow> event list \<Rightarrow> event list \<times> (error + synchronizer)" where
  "processSorted env S [] = ([], Inr S)"
| "processSorted env S (ev # rest) =
     (case topicHandlers env S ev of
        None \<Rightarrow> ([], Inl UnrecognizedTopic)
      | Some handled \<Rightarrow>
          (case transaction env S ev of
             Inl err \<Rightarrow> ([ev], Inl err)
           | Inr S' \<Rightarrow> (ev # fst (processSorted env S' rest), snd (processSorted env S' rest))))"

definition processEvents :: "env \<Rightarrow> synchronizer \<Rightarrow> event list \<Rightarrow> event list \<times> (error + synchronizer)" where
  "processEvents env S events =
     (if events = [] then ([], Inr S) else processSorted env S (sortEvents events))"

text \<open>The filter of \<open>startDaemon\<close> against the persisted cursor.\<close>

definition unprocessed :: "SynchronizerStateDoc \<Rightarrow> event \<Rightarrow> bool" where
  "unprocessed state e =
     (if blockNumber e = latestProcessedBlock state then
        (if transactionIndex e = latestProcessedTransactionIndex state
         then logIndex e > latestProcessedEventIndex state
         else transactionIndex e > latestProcessedTransactionIndex state)
      else blockNumber e > latestProcessedBlock state)"

text \<open>
  One round of the loop of \<open>startDaemon\<close>: \<open>allEvents\<close> is what \<open>loadNewEvents\<close> returned
  and \<open>newLatest\<close> the block number the round runs up to.
\<close>

definition daemonRound ::
  "env \<Rightarrow> synchronizer \<Rightarrow> event list \<Rightarrow> nat \<Rightarrow> event list \<times> (error + synchronizer)" where
  "daemonRound env S allEvents newLatest =
     (case SynchronizerState (db S) of
        None \<Rightarrow> ([], Inl StateNotInitialized)
      | Some state \<Rightarrow>
          (let unprocessedEvents = filter (unprocessed state) allEvents;
               r = processEvents env S unprocessedEvents
           in
           (fst r,
            case snd r of
              Inl err \<Rightarrow> Inl err
            | Inr S' \<Rightarrow>
                Inr (S'\<lparr>db := (db S')\<lparr>SynchronizerState :=
                        map_option (\<lambda>c. c\<lparr>latestCompleteBlock := newLatest\<rparr>)
                          (SynchronizerState (db S'))\<rparr>\<rparr>))))"

text \<open>The position of a log, and the lexicographic order of positions.\<close>

definition pos_less :: "nat \<times> nat \<times> nat \<Rightarrow> nat \<times> nat \<times> nat \<Rightarrow> bool" where
  "pos_less p q =
     (fst p < fst q
      \<or> (fst p = fst q \<and> (fst (snd p) < fst (snd q)
           \<or> (fst (snd p) = fst (snd q) \<and> snd (snd p) < snd (snd q)))))"

definition position :: "event \<Rightarrow> nat \<times> nat \<times> nat" where
  "position e = (blockNumber e, transactionIndex e, logIndex e)"

definition cursor :: "SynchronizerStateDoc \<Rightarrow> nat \<times> nat \<times> nat" where
  "cursor state =
     (latestProcessedBlock state, latestProcessedTransactionIndex state,
      latestProcessedEventIndex state)"

section \<open>Example collaborators and inputs\<close>

text \<open>
  Concrete collaborators, for evaluating the handlers on concrete inputs: a prover that
  accepts exactly the non-empty proofs, arithmetic stand-ins for the hashes and the tree
  roots, and the public-signal layout of \<open>userStateTransition\<close> with one epoch-key nonce
  per epoch.
\<close>

definition exampleEnv :: env where
  "exampleEnv =
     \<lparr>hashLeftRight = (\<lambda>a b. 2 * a + 3 * b + 1),
      verifyProof = (\<lambda>c publicSignals prf. prf \<noteq> []),
      SMT_ONE_LEAF = 1,
      smtRoot = (\<lambda>d z us. z + sum_list (map (\<lambda>u. fst u + snd u) us)),
      imtRoot = (\<lambda>d z ls. z + sum_list ls),
      computeEmptyUserStateRoot = (\<lambda>d. 0),
      computeInitUserStateRoot = (\<lambda>d a b. int a + int b),
      attestationHash = (\<lambda>a b c d e. a + b + c + d + e),
      decodeUserTransitionProof =
        (\<lambda>ps. \<lparr>newGlobalStateTreeLeaf = ps ! 0, epkNullifiers = [ps ! 1],
               transitionFromEpoch = ps ! 2, blindedUserStates = [ps ! 3, ps ! 4],
               fromGlobalStateTree = ps ! 5, blindedHashChains = [ps ! 6],
               fromEpochTree = ps ! 7, ust_proof = []\<rparr>),
      globalStateTreeDepth = 4,
      userStateTreeDepth = 4,
      epochTreeDepth = 4,
      nullifierConfirmedDefault = True\<rparr>"

definition startedSync :: synchronizer where
  "startedSync =
     \<lparr>db = emptyStore\<lparr>SynchronizerState :=
            Some \<lparr>latestProcessedBlock = 5, latestProcessedTransactionIndex = 0,
                  latestProcessedEventIndex = 0, latestCompleteBlock = 5\<rparr>\<rparr>,
      globalStateTree = newIMT 4 1\<rparr>"

definition startedProofAt :: "nat \<Rightarrow> nat \<Rightarrow> nat \<Rightarrow> nat \<Rightarrow> event" where
  "startedProofAt b t l i =
     \<lparr>blockNumber = b, transactionIndex = t, logIndex = l, transactionHash = ''0x01'',
      payload = StartedTransitionProofIndexed i 11 12 13 [1]\<rparr>"

section \<open>The epoch tree in the words of the specification\<close>




section \<open>Further example inputs\<close>

definition exampleAttestation :: "nat \<Rightarrow> field \<Rightarrow> bool option \<Rightarrow> AttestationDoc" where
  "exampleAttestation i h v =
     \<lparr>att_epoch = 2, att_epochKey = 3, att_index = i, att_transactionHash = ''0x02'',
      att_attester = ''0xa'', att_proofIndex = 1, att_attesterId = 1, att_posRep = 5,
      att_negRep = 2, att_graffiti = 0, att_signUp = False, att_hash = h, att_valid = v\<rparr>"

definition attestedSync :: synchronizer where
  "attestedSync =
     \<lparr>db = emptyStore
        \<lparr>Epochs := [\<lparr>number = 1, sealed = True, epochRoot = Some 0\<rparr>,
                    \<lparr>number = 2, sealed = False, epochRoot = None\<rparr>],
         EpochKeys := [\<lparr>key_epoch = 2, key = 3\<rparr>],
         Attestations := [exampleAttestation 20 7 (Some True), exampleAttestation 10 4 (Some True),
                          exampleAttestation 15 9 (Some False)]\<rparr>,
      globalStateTree = newIMT 4 1\<rparr>"





definition userTransitionArgs :: "field \<Rightarrow> field list \<Rightarrow> UserTransitionArgs" where
  "userTransitionArgs fromEpoch pf =
     \<lparr>newGlobalStateTreeLeaf = 21, epkNullifiers = [7], transitionFromEpoch = fromEpoch,
      blindedUserStates = [11, 15], fromGlobalStateTree = 12, blindedHashChains = [14],
      fromEpochTree = 133, ust_proof = pf\<rparr>"

definition epochKeyArgs :: "field list \<Rightarrow> EpochKeyProofArgs" where
  "epochKeyArgs pf = \<lparr>ek_globalStateTree = 12, ek_epoch = 2, ek_epochKey = 3, ek_proof = pf\<rparr>"

definition exampleProof :: "nat \<Rightarrow> bool \<Rightarrow> bool option \<Rightarrow> ProofDoc" where
  "exampleProof i v sp =
     (newProofDoc i IndexedReputationProof ''0x05'' [1] v)\<lparr>p_epoch := Some 2, p_spent := sp\<rparr>"

definition attestationSync :: synchronizer where
  "attestationSync =
     attestedSync\<lparr>db := (db attestedSync)
        \<lparr>Proofs := [exampleProof 7 True None, exampleProof 1 True (Some True)]\<rparr>\<rparr>"

definition attestationArgs :: "nat \<Rightarrow> nat \<Rightarrow> AttestationArgs" where
  "attestationArgs toProofIndex fromProofIndex =
     \<lparr>a_epoch = 2, a_epochKey = 3, a_attester = ''0xa'', a_toProofIndex = toProofIndex,
      a_fromProofIndex = fromProofIndex, a_attesterId = 1, a_posRep = 5, a_negRep = 2,
      a_graffiti = 0, a_signUp = 0\<rparr>"

definition attestationAt :: "nat \<Rightarrow> nat \<Rightarrow> nat \<Rightarrow> nat \<Rightarrow> nat \<Rightarrow> event" where
  "attestationAt b t l toProofIndex fromProofIndex =
     \<lparr>blockNumber = b, transactionIndex = t, logIndex = l, transactionHash = ''0x02'',
      payload = AttestationSubmitted (attestationArgs toProofIndex fromProofIndex)\<rparr>"

definition transitionProofDoc :: "nat list \<Rightarrow> field \<Rightarrow> ProofDoc" where
  "transitionProofDoc recs hc =
     (newProofDoc 3 IndexedUserStateTransitionProof ''0x06'' [1] True)
     \<lparr>p_publicSignals := Some [21, 7, 1, 11, 15, 12, hc, 133],
      p_blindedUserState := Some 11, p_globalStateTree := Some 12,
      p_proofIndexRecords := Some recs\<rparr>"

definition startProofDoc :: ProofDoc where
  "startProofDoc =
     (newProofDoc 2 IndexedStartedTransitionProof ''0x07'' [1] True)
     \<lparr>p_blindedUserState := Some 11, p_blindedHashChain := Some 13,
      p_globalStateTree := Some 12\<rparr>"

definition processedProofDoc :: ProofDoc where
  "processedProofDoc =
     (newProofDoc 4 IndexedProcessedAttestationsProof ''0x08'' [1] True)
     \<lparr>p_outputBlindedUserState := Some 15, p_outputBlindedHashChain := Some 14,
      p_inputBlindedUserState := Some 11, p_globalStateTree := Some 0\<rparr>"

definition transitionSync :: "nat list \<Rightarrow> field \<Rightarrow> NullifierDoc list \<Rightarrow> synchronizer" where
  "transitionSync recs hc nuls =
     \<lparr>db = emptyStore
        \<lparr>Epochs := [\<lparr>number = 1, sealed = True, epochRoot = Some 133\<rparr>,
                    \<lparr>number = 2, sealed = False, epochRoot = None\<rparr>],
         GSTRoots := [\<lparr>root_epoch = 1, root = 12\<rparr>],
         Nullifiers := nuls,
         Proofs := [transitionProofDoc recs hc, startProofDoc, processedProofDoc]\<rparr>,
      globalStateTree = newIMT 4 1\<rparr>"

definition transitionedAt :: "nat \<Rightarrow> nat \<Rightarrow> nat \<Rightarrow> event" where
  "transitionedAt b t l =
     \<lparr>blockNumber = b, transactionIndex = t, logIndex = l, transactionHash = ''0x09'',
      payload = UserStateTransitioned 2 21 3\<rparr>"

definition confirmedSeven :: "NullifierDoc list" where
  "confirmedSeven = [\<lparr>nul_epoch = 1, nullifier = 7, confirmed = True\<rparr>]"

section \<open>Unsealed epochs\<close>






section \<open>Properties\<close>

subsection \<open>nullifierExist\<close>

lemma count_positive_iff: "(0 < count wh rows) = (\<exists>r \<in> set rows. wh r)"
  by (simp add: count_def filter_empty_conv)

text \<open>
  C10. \<open>nullifierExist\<close> returns true exactly when some Nullifier row carries the value,
  whatever the row's \<open>confirmed\<close> flag; in particular a store whose only row for the value
  is unconfirmed makes it return true.
\<close>

theorem nullifierExist_iff_row:
  "nullifierExist s n = (\<exists>r \<in> set (Nullifiers s). nullifier r = n)
   \<and> nullifierExist (s\<lparr>Nullifiers := [\<lparr>nul_epoch = e, nullifier = n, confirmed = False\<rparr>]\<rparr>) n"
  by (simp add: nullifierExist_def count_positive_iff)

subsection \<open>Attestation index\<close>

lemma decimal_small: "n < 10 \<Longrightarrow> decimal n = [n]"
  by (simp add: decimal.simps)

lemma decimal_two: "10 \<le> n \<Longrightarrow> n < 100 \<Longrightarrow> decimal n = [n div 10, n mod 10]"
  by (subst decimal.simps) (simp add: decimal_small)

text \<open>
  C5 (evaluation of the code). Two distinct log positions receive the same index, and the
  index order disagrees with the lexicographic order of the positions: position
  \<open>(2, 0, 0)\<close> comes after \<open>(1, 10, 10)\<close> and receives the smaller index.
\<close>

theorem attestationIndex_collides:
  "attestationIndex 1 23 4 = 1234 \<and> attestationIndex 12 3 4 = 1234
   \<and> attestationIndex 2 0 0 = 200 \<and> attestationIndex 1 10 10 = 11010"
  by (simp add: attestationIndex_def parseDecimal_def decimal_small decimal_two)

subsection \<open>Ordering of the handlers\<close>

lemma compareEvents_le: "(compareEvents a b \<le> 0) = (\<not> pos_less (position b) (position a))"
  by (auto simp: compareEvents_def pos_less_def position_def)

lemma not_less_trans:
  "\<not> pos_less (position b) (position a) \<Longrightarrow> \<not> pos_less (position c) (position b)
   \<Longrightarrow> \<not> pos_less (position c) (position a)"
  by (auto simp: pos_less_def position_def)

lemma not_less_total:
  "pos_less (position b) (position a) \<Longrightarrow> \<not> pos_less (position a) (position b)"
  by (auto simp: pos_less_def position_def)

lemma set_insertEvent: "set (insertEvent x ys) = insert x (set ys)"
  by (induction ys) auto

lemma sorted_insertEvent:
  "sorted_wrt (\<lambda>a b. \<not> pos_less (position b) (position a)) ys
   \<Longrightarrow> sorted_wrt (\<lambda>a b. \<not> pos_less (position b) (position a)) (insertEvent x ys)"
proof (induction ys)
  case Nil
  then show ?case by simp
next
  case (Cons y ys)
  show ?case
  proof (cases "compareEvents x y \<le> 0")
    case True
    then have xy: "\<not> pos_less (position y) (position x)" by (simp add: compareEvents_le)
    have "\<forall>z \<in> set ys. \<not> pos_less (position z) (position x)"
      using Cons.prems xy not_less_trans by (metis sorted_wrt.simps(2))
    with True xy Cons.prems show ?thesis by simp
  next
    case False
    then have yx: "\<not> pos_less (position x) (position y)"
      using not_less_total by (simp add: compareEvents_le) 
    with False Cons show ?thesis by (auto simp: set_insertEvent)
  qed
qed

lemma set_sortEvents: "set (sortEvents evs) = set evs"
  by (induction evs) (simp_all add: sortEvents_def set_insertEvent)

lemma sorted_sortEvents:
  "sorted_wrt (\<lambda>a b. \<not> pos_less (position b) (position a)) (sortEvents evs)"
  by (induction evs) (simp_all add: sortEvents_def sorted_insertEvent)

lemma processSorted_prefix: "\<exists>rest. xs = fst (processSorted env S xs) @ rest"
proof (induction xs arbitrary: S)
  case Nil
  then show ?case by simp
next
  case (Cons x xs)
  show ?case
    by (cases "topicHandlers env S x"; cases "transaction env S x") (use Cons in auto)
qed

lemma distinct_insertEvent:
  "distinct (map position (insertEvent x ys))
   = (position x \<notin> position ` set ys \<and> distinct (map position ys))"
  by (induction ys) (auto simp: set_insertEvent)

lemma distinct_sortEvents: "distinct (map position (sortEvents evs)) = distinct (map position evs)"
proof (induction evs)
  case Nil
  then show ?case by (simp add: sortEvents_def)
next
  case (Cons x evs)
  have "sortEvents (x # evs) = insertEvent x (sortEvents evs)" by (simp add: sortEvents_def)
  then show ?case using Cons by (simp add: distinct_insertEvent set_sortEvents)
qed

lemma pos_less_total: "\<not> pos_less q p \<Longrightarrow> p \<noteq> q \<Longrightarrow> pos_less p q"
  by (cases p; cases q) (auto simp: pos_less_def)

lemma strictly_sorted:
  "sorted_wrt (\<lambda>a b. \<not> pos_less (position b) (position a)) xs \<Longrightarrow> distinct (map position xs)
   \<Longrightarrow> sorted_wrt (\<lambda>a b. pos_less (position a) (position b)) xs"
  by (induction xs) (auto intro: pos_less_total)

lemma unprocessed_iff: "unprocessed state e = pos_less (cursor state) (position e)"
  by (auto simp: unprocessed_def pos_less_def cursor_def position_def)

lemma processEvents_prefix: "\<exists>rest. sortEvents events = fst (processEvents env S events) @ rest"
  using processSorted_prefix [of "sortEvents events" env S] by (simp add: processEvents_def)

text \<open>
  C6. The handlers of a batch are invoked in ascending order of
  (blockNumber, transactionIndex, logIndex): the invocation order is never descending, and
  strictly ascending when the positions of the batch are pairwise distinct. A round of the
  daemon passes to \<open>processEvents\<close> only the events the cursor filter retains, so every
  event a handler runs for is one of the loaded events and lies strictly after the
  persisted cursor.
\<close>

theorem processEvents_ordered:
  "sorted_wrt (\<lambda>a b. \<not> pos_less (position b) (position a)) (fst (processEvents env S events))
   \<and> (distinct (map position events)
        \<longrightarrow> sorted_wrt (\<lambda>a b. pos_less (position a) (position b)) (fst (processEvents env S events)))
   \<and> (SynchronizerState (db S) = Some state
        \<longrightarrow> fst (daemonRound env S allEvents newLatest)
              = fst (processEvents env S (filter (unprocessed state) allEvents))
          \<and> (\<forall>e \<in> set (fst (daemonRound env S allEvents newLatest)).
                e \<in> set allEvents \<and> pos_less (cursor state) (position e)))"
proof -
  have pre: "\<And>evs. \<exists>rest. sortEvents evs = fst (processEvents env S evs) @ rest"
    by (rule processEvents_prefix)
  have le: "\<And>evs. sorted_wrt (\<lambda>a b. \<not> pos_less (position b) (position a)) (fst (processEvents env S evs))"
  proof -
    fix evs
    obtain rest where r: "sortEvents evs = fst (processEvents env S evs) @ rest" using pre by blast
    show "sorted_wrt (\<lambda>a b. \<not> pos_less (position b) (position a)) (fst (processEvents env S evs))"
      using sorted_sortEvents [of evs] unfolding r by (simp add: sorted_wrt_append)
  qed
  have lt: "distinct (map position events)
        \<longrightarrow> sorted_wrt (\<lambda>a b. pos_less (position a) (position b)) (fst (processEvents env S events))"
  proof
    assume d: "distinct (map position events)"
    obtain rest where r: "sortEvents events = fst (processEvents env S events) @ rest"
      using pre by blast
    have "distinct (map position (fst (processEvents env S events)))"
      using d distinct_sortEvents [of events] unfolding r by simp
    then show "sorted_wrt (\<lambda>a b. pos_less (position a) (position b)) (fst (processEvents env S events))"
      using le strictly_sorted by blast
  qed
  have sub: "\<And>evs. set (fst (processEvents env S evs)) \<subseteq> set evs"
  proof -
    fix evs
    obtain rest where r: "sortEvents evs = fst (processEvents env S evs) @ rest" using pre by blast
    have "set (fst (processEvents env S evs)) \<subseteq> set (sortEvents evs)" unfolding r by simp
    then show "set (fst (processEvents env S evs)) \<subseteq> set evs" by (simp add: set_sortEvents)
  qed
  have dm: "SynchronizerState (db S) = Some state
        \<longrightarrow> fst (daemonRound env S allEvents newLatest)
              = fst (processEvents env S (filter (unprocessed state) allEvents))
          \<and> (\<forall>e \<in> set (fst (daemonRound env S allEvents newLatest)).
                e \<in> set allEvents \<and> pos_less (cursor state) (position e))"
  proof
    assume st: "SynchronizerState (db S) = Some state"
    have eq: "fst (daemonRound env S allEvents newLatest)
              = fst (processEvents env S (filter (unprocessed state) allEvents))"
      using st by (simp add: daemonRound_def Let_def)
    have "set (fst (processEvents env S (filter (unprocessed state) allEvents)))
          \<subseteq> set (filter (unprocessed state) allEvents)" by (rule sub)
    then show "fst (daemonRound env S allEvents newLatest)
              = fst (processEvents env S (filter (unprocessed state) allEvents))
          \<and> (\<forall>e \<in> set (fst (daemonRound env S allEvents newLatest)).
                e \<in> set allEvents \<and> pos_less (cursor state) (position e))"
      using eq by (auto simp: unprocessed_iff)
  qed
  from le lt dm show ?thesis by blast
qed

lemma processSorted_started:
  "(\<And>e. e \<in> set evs \<Longrightarrow> \<exists>i a b c pf. payload e = StartedTransitionProofIndexed i a b c pf)
   \<Longrightarrow> fst (processSorted env S evs) = evs"
proof (induction evs arbitrary: S)
  case Nil
  then show ?case by simp
next
  case (Cons x xs)
  obtain i a b c pf where px: "payload x = StartedTransitionProofIndexed i a b c pf"
    using Cons.prems [of x] by auto
  have "fst (processSorted env S' xs) = xs" for S'
    using Cons.IH Cons.prems by simp
  then show ?case
    by (simp add: px topicHandlers_def transaction_def startUSTProofEvent_def Let_def)
qed

theorem processEvents_ordered_witness:
  "distinct (map position
      [startedProofAt 7 0 1 3, startedProofAt 6 1 0 2, startedProofAt 5 0 0 1])
   \<and> SynchronizerState (db startedSync)
       = Some \<lparr>latestProcessedBlock = 5, latestProcessedTransactionIndex = 0,
               latestProcessedEventIndex = 0, latestCompleteBlock = 5\<rparr>
   \<and> fst (processEvents exampleEnv startedSync
          [startedProofAt 7 0 1 3, startedProofAt 6 1 0 2, startedProofAt 5 0 0 1])
       = [startedProofAt 5 0 0 1, startedProofAt 6 1 0 2, startedProofAt 7 0 1 3]
   \<and> sorted_wrt (\<lambda>a b. pos_less (position a) (position b))
        (fst (processEvents exampleEnv startedSync
          [startedProofAt 7 0 1 3, startedProofAt 6 1 0 2, startedProofAt 5 0 0 1]))
   \<and> fst (daemonRound exampleEnv startedSync
          [startedProofAt 7 0 1 3, startedProofAt 6 1 0 2, startedProofAt 5 0 0 1] 7)
       = [startedProofAt 6 1 0 2, startedProofAt 7 0 1 3]
   \<and> pos_less (5, 0, 0) (position (startedProofAt 6 1 0 2))"
proof -
  let ?evs = "[startedProofAt 7 0 1 3, startedProofAt 6 1 0 2, startedProofAt 5 0 0 1]"
  let ?st = "\<lparr>latestProcessedBlock = 5, latestProcessedTransactionIndex = 0,
               latestProcessedEventIndex = 0, latestCompleteBlock = 5\<rparr>"
  have d: "distinct (map position ?evs)"
    by (simp add: position_def startedProofAt_def)
  have st: "SynchronizerState (db startedSync) = Some ?st"
    by (simp add: startedSync_def emptyStore_def)
  have srt: "sortEvents ?evs = [startedProofAt 5 0 0 1, startedProofAt 6 1 0 2, startedProofAt 7 0 1 3]"
    by (simp add: sortEvents_def compareEvents_def startedProofAt_def)
  have p: "fst (processEvents exampleEnv startedSync ?evs)
       = [startedProofAt 5 0 0 1, startedProofAt 6 1 0 2, startedProofAt 7 0 1 3]"
  proof -
    have "fst (processSorted exampleEnv startedSync
            [startedProofAt 5 0 0 1, startedProofAt 6 1 0 2, startedProofAt 7 0 1 3])
          = [startedProofAt 5 0 0 1, startedProofAt 6 1 0 2, startedProofAt 7 0 1 3]"
      by (rule processSorted_started) (auto simp: startedProofAt_def)
    then show ?thesis unfolding processEvents_def srt by simp
  qed
  have flt: "filter (unprocessed ?st) ?evs = [startedProofAt 7 0 1 3, startedProofAt 6 1 0 2]"
    by (simp add: unprocessed_def startedProofAt_def)
  have srt2: "sortEvents [startedProofAt 7 0 1 3, startedProofAt 6 1 0 2]
       = [startedProofAt 6 1 0 2, startedProofAt 7 0 1 3]"
    by (simp add: sortEvents_def compareEvents_def startedProofAt_def)
  have p2: "fst (processEvents exampleEnv startedSync (filter (unprocessed ?st) ?evs))
       = [startedProofAt 6 1 0 2, startedProofAt 7 0 1 3]"
  proof -
    have "fst (processSorted exampleEnv startedSync [startedProofAt 6 1 0 2, startedProofAt 7 0 1 3])
          = [startedProofAt 6 1 0 2, startedProofAt 7 0 1 3]"
      by (rule processSorted_started) (auto simp: startedProofAt_def)
    then show ?thesis unfolding processEvents_def flt srt2 by simp
  qed
  note main = processEvents_ordered [of exampleEnv startedSync ?evs ?st ?evs 7]
  have dr: "fst (daemonRound exampleEnv startedSync ?evs 7)
       = [startedProofAt 6 1 0 2, startedProofAt 7 0 1 3]"
    using main st p2 by simp
  have "pos_less (cursor ?st) (position (startedProofAt 6 1 0 2))"
    using main st dr by simp
  then have c: "pos_less (5, 0, 0) (position (startedProofAt 6 1 0 2))"
    by (simp add: cursor_def)
  have s: "sorted_wrt (\<lambda>a b. pos_less (position a) (position b))
        (fst (processEvents exampleEnv startedSync ?evs))"
    using main d by blast
  from d st p s dr c show ?thesis by blast
qed

subsection \<open>EpochEnded\<close>










subsection \<open>IndexedReputationProof: nullifier bookkeeping\<close>

lemma findOne_None_iff: "(findOne wh rows = None) = (\<forall>r \<in> set rows. \<not> wh r)"
  by (auto simp: findOne_def find_None_iff)





subsection \<open>The valid field of a Proof row\<close>

lemma GSTRootExists_ok:
  "e \<le> number (loadCurrentEpoch s)
   \<Longrightarrow> GSTRootExists s r e = Inr (\<exists>d \<in> set (GSTRoots s). root_epoch d = e \<and> root d = r)"
  by (auto simp: GSTRootExists_def checkValidEpoch_def findOne_None_iff)

text \<open>
  C3, as amended. The handlers of IndexedEpochKeyProof, IndexedUserSignedUpProof and
  IndexedUserStateTransitionProof persist one Proof row whose \<open>valid\<close> is the prover's
  answer in conjunction with the existence of the referenced global-state-tree root for
  the proof's epoch; the handler of IndexedReputationProof adds to this conjunction the
  absence of a confirmed row among the proof's non-zero reputation nullifiers. The
  handlers of IndexedStartedTransitionProof and IndexedProcessedAttestationsProof look up
  no root: their Proof row's \<open>valid\<close> is the prover's answer alone. (The hypotheses are
  the checks under which the first four handlers do not throw.)
\<close>

theorem indexed_proof_valid:
  assumes "epoch \<le> number (loadCurrentEpoch (db S))"
    and "nat (transitionFromEpoch ua) \<le> number (loadCurrentEpoch (db S))"
    and "blindedUserStates ua \<noteq> []"
  shows
    "(\<exists>row. epochKeyProofEvent env S ev i epoch ea = Inr ([CreateProof row], globalStateTree S)
        \<and> p_valid row
            = (verifyProof env verifyEpochKey [ek_globalStateTree ea, ek_epoch ea, ek_epochKey ea]
                 (ek_proof ea)
               \<and> (\<exists>d \<in> set (GSTRoots (db S)). root_epoch d = epoch \<and> root d = ek_globalStateTree ea)))
   \<and> (\<exists>row. userSignedUpProofEvent env S ev i epoch sa = Inr ([CreateProof row], globalStateTree S)
        \<and> p_valid row
            = (verifyProof env proveUserSignUp
                 [su_epoch sa, su_epochKey sa, su_globalStateTree sa, su_attesterId sa,
                  su_userHasSignedUp sa] (su_proof sa)
               \<and> (\<exists>d \<in> set (GSTRoots (db S)). root_epoch d = epoch \<and> root d = su_globalStateTree sa)))
   \<and> (\<exists>row. USTProofEvent env S ev i ua recs = Inr ([CreateProof row], globalStateTree S)
        \<and> p_valid row
            = (verifyProof env userStateTransition
                 ([newGlobalStateTreeLeaf ua] @ epkNullifiers ua @ [transitionFromEpoch ua]
                  @ blindedUserStates ua @ [fromGlobalStateTree ua] @ blindedHashChains ua
                  @ [fromEpochTree ua]) (ust_proof ua)
               \<and> (\<exists>d \<in> set (GSTRoots (db S)).
                     root_epoch d = nat (transitionFromEpoch ua) \<and> root d = fromGlobalStateTree ua)))
   \<and> (\<exists>row nops. reputationProofEvent env S ev i epoch ra
                      = Inr (nops @ [CreateProof row], globalStateTree S)
        \<and> (nops = []
            \<or> nops = [DeleteUnconfirmedNullifiers (filter (\<lambda>n. n \<noteq> 0) (rp_repNullifiers ra)),
                       CreateNullifiers epoch (filter (\<lambda>n. n \<noteq> 0) (rp_repNullifiers ra))])
        \<and> p_valid row
            = (verifyProof env proveReputation
                 (rp_repNullifiers ra
                  @ [rp_epoch ra, rp_epochKey ra, rp_globalStateTree ra, rp_attesterId ra,
                     rp_proveReputationAmount ra, rp_minRep ra, rp_proveGraffiti ra,
                     rp_graffitiPreImage ra]) (rp_proof ra)
               \<and> (\<exists>d \<in> set (GSTRoots (db S)). root_epoch d = epoch \<and> root d = rp_globalStateTree ra)
               \<and> \<not> (\<exists>r \<in> set (Nullifiers (db S)).
                       nullifier r \<in> set (filter (\<lambda>n. n \<noteq> 0) (rp_repNullifiers ra))
                       \<and> confirmed r)))
   \<and> (\<exists>row. startUSTProofEvent env S ev i b g h pf = Inr ([CreateProof row], globalStateTree S)
        \<and> p_valid row = verifyProof env startTransition [b, h, g] pf)
   \<and> (\<exists>row. processAttestationProofEvent env S ev i ib ob oh pf
                = Inr ([CreateProof row], globalStateTree S)
        \<and> p_valid row = verifyProof env processAttestations [ob, oh, ib] pf)"
proof -
  have ek: "\<exists>row. epochKeyProofEvent env S ev i epoch ea = Inr ([CreateProof row], globalStateTree S)
        \<and> p_valid row
            = (verifyProof env verifyEpochKey [ek_globalStateTree ea, ek_epoch ea, ek_epochKey ea]
                 (ek_proof ea)
               \<and> (\<exists>d \<in> set (GSTRoots (db S)). root_epoch d = epoch \<and> root d = ek_globalStateTree ea))"
    by (simp add: epochKeyProofEvent_def Let_def GSTRootExists_ok [OF assms(1)] newProofDoc_def)
  have su: "\<exists>row. userSignedUpProofEvent env S ev i epoch sa = Inr ([CreateProof row], globalStateTree S)
        \<and> p_valid row
            = (verifyProof env proveUserSignUp
                 [su_epoch sa, su_epochKey sa, su_globalStateTree sa, su_attesterId sa,
                  su_userHasSignedUp sa] (su_proof sa)
               \<and> (\<exists>d \<in> set (GSTRoots (db S)). root_epoch d = epoch \<and> root d = su_globalStateTree sa))"
    by (simp add: userSignedUpProofEvent_def Let_def GSTRootExists_ok [OF assms(1)] newProofDoc_def)
  obtain b0 bs where bus: "blindedUserStates ua = b0 # bs"
    using assms(3) by (cases "blindedUserStates ua") auto
  have ust: "\<exists>row. USTProofEvent env S ev i ua recs = Inr ([CreateProof row], globalStateTree S)
        \<and> p_valid row
            = (verifyProof env userStateTransition
                 ([newGlobalStateTreeLeaf ua] @ epkNullifiers ua @ [transitionFromEpoch ua]
                  @ blindedUserStates ua @ [fromGlobalStateTree ua] @ blindedHashChains ua
                  @ [fromEpochTree ua]) (ust_proof ua)
               \<and> (\<exists>d \<in> set (GSTRoots (db S)).
                     root_epoch d = nat (transitionFromEpoch ua) \<and> root d = fromGlobalStateTree ua))"
    by (simp add: USTProofEvent_def Let_def GSTRootExists_ok [OF assms(2)] newProofDoc_def bus)
  have nd: "(findOne (\<lambda>r. nullifier r \<in> set (filter (\<lambda>n. n \<noteq> 0) (rp_repNullifiers ra))
                           \<and> confirmed r = True) (Nullifiers (db S)) = None)
            = (\<not> (\<exists>r \<in> set (Nullifiers (db S)).
                       nullifier r \<in> set (filter (\<lambda>n. n \<noteq> 0) (rp_repNullifiers ra))
                       \<and> confirmed r))"
    by (simp add: findOne_None_iff)
  have rp: "\<exists>row nops. reputationProofEvent env S ev i epoch ra
                      = Inr (nops @ [CreateProof row], globalStateTree S)
        \<and> (nops = []
            \<or> nops = [DeleteUnconfirmedNullifiers (filter (\<lambda>n. n \<noteq> 0) (rp_repNullifiers ra)),
                       CreateNullifiers epoch (filter (\<lambda>n. n \<noteq> 0) (rp_repNullifiers ra))])
        \<and> p_valid row
            = (verifyProof env proveReputation
                 (rp_repNullifiers ra
                  @ [rp_epoch ra, rp_epochKey ra, rp_globalStateTree ra, rp_attesterId ra,
                     rp_proveReputationAmount ra, rp_minRep ra, rp_proveGraffiti ra,
                     rp_graffitiPreImage ra]) (rp_proof ra)
               \<and> (\<exists>d \<in> set (GSTRoots (db S)). root_epoch d = epoch \<and> root d = rp_globalStateTree ra)
               \<and> \<not> (\<exists>r \<in> set (Nullifiers (db S)).
                       nullifier r \<in> set (filter (\<lambda>n. n \<noteq> 0) (rp_repNullifiers ra))
                       \<and> confirmed r))"
  proof (cases "findOne (\<lambda>r. nullifier r \<in> set (filter (\<lambda>n. n \<noteq> 0) (rp_repNullifiers ra))
                           \<and> confirmed r = True) (Nullifiers (db S)) = None")
    case True
    then show ?thesis
      using nd
      by (simp add: reputationProofEvent_def Let_def GSTRootExists_ok [OF assms(1)] newProofDoc_def)
  next
    case False
    then show ?thesis
      using nd
      by (simp add: reputationProofEvent_def Let_def GSTRootExists_ok [OF assms(1)] newProofDoc_def)
  qed
  have st: "\<exists>row. startUSTProofEvent env S ev i b g h pf = Inr ([CreateProof row], globalStateTree S)
        \<and> p_valid row = verifyProof env startTransition [b, h, g] pf"
    by (simp add: startUSTProofEvent_def Let_def newProofDoc_def)
  have pa: "\<exists>row. processAttestationProofEvent env S ev i ib ob oh pf
                = Inr ([CreateProof row], globalStateTree S)
        \<and> p_valid row = verifyProof env processAttestations [ob, oh, ib] pf"
    by (simp add: processAttestationProofEvent_def Let_def newProofDoc_def)
  from ek su ust rp st pa show ?thesis by blast
qed

theorem indexed_proof_valid_witness:
  "2 \<le> number (loadCurrentEpoch (db attestedSync))
   \<and> nat (transitionFromEpoch (userTransitionArgs 2 [1])) \<le> number (loadCurrentEpoch (db attestedSync))
   \<and> blindedUserStates (userTransitionArgs 2 [1]) \<noteq> []
   \<and> verifyProof exampleEnv verifyEpochKey [12, 2, 3] [1]
   \<and> GSTRoots (db attestedSync) = []
   \<and> (\<exists>row. epochKeyProofEvent exampleEnv attestedSync (startedProofAt 6 1 0 2) 5 2 (epochKeyArgs [1])
               = Inr ([CreateProof row], globalStateTree attestedSync)
          \<and> \<not> p_valid row)
   \<and> (\<exists>row. startUSTProofEvent exampleEnv attestedSync (startedProofAt 6 1 0 2) 5 11 12 13 [1]
               = Inr ([CreateProof row], globalStateTree attestedSync)
          \<and> p_valid row)"
proof -
  have c: "2 \<le> number (loadCurrentEpoch (db attestedSync))"
    by (simp add: loadCurrentEpoch_def attestedSync_def emptyStore_def)
  have u: "nat (transitionFromEpoch (userTransitionArgs 2 [1])) \<le> number (loadCurrentEpoch (db attestedSync))"
    by (simp add: loadCurrentEpoch_def attestedSync_def emptyStore_def userTransitionArgs_def)
  have b: "blindedUserStates (userTransitionArgs 2 [1]) \<noteq> []"
    by (simp add: userTransitionArgs_def)
  have v: "verifyProof exampleEnv verifyEpochKey [12, 2, 3] [1]"
    by (simp add: exampleEnv_def)
  have v': "verifyProof exampleEnv startTransition [11, 13, 12] [1]"
    by (simp add: exampleEnv_def)
  have g: "GSTRoots (db attestedSync) = []"
    by (simp add: attestedSync_def emptyStore_def)
  note main = indexed_proof_valid [OF c u b, where env = exampleEnv
      and ev = "startedProofAt 6 1 0 2" and i = 5 and ea = "epochKeyArgs [1]"
      and b = 11 and g = 12 and h = 13 and pf = "[1]"]
  have e1: "\<exists>row. epochKeyProofEvent exampleEnv attestedSync (startedProofAt 6 1 0 2) 5 2 (epochKeyArgs [1])
               = Inr ([CreateProof row], globalStateTree attestedSync)
          \<and> \<not> p_valid row"
    using main g by (auto simp: epochKeyArgs_def)
  have e2: "\<exists>row. startUSTProofEvent exampleEnv attestedSync (startedProofAt 6 1 0 2) 5 11 12 13 [1]
               = Inr ([CreateProof row], globalStateTree attestedSync)
          \<and> p_valid row"
    using main v' by auto
  from c u b v g e1 e2 show ?thesis by blast
qed

text \<open>
  C3, as stated, fails for the start-transition handler: on a store without any
  global-state-tree root, a start-transition proof the prover accepts is persisted with
  \<open>valid = True\<close>.
\<close>

theorem startUSTProofEvent_counterexample:
  "verifyProof exampleEnv startTransition [11, 13, 12] [1]
   \<and> GSTRoots (db startedSync) = []
   \<and> topicHandlers exampleEnv startedSync (startedProofAt 6 1 0 2)
       = Some (Inr ([CreateProof
                ((newProofDoc 2 IndexedStartedTransitionProof ''0x01'' [1] True)
                 \<lparr>p_blindedUserState := Some 11, p_blindedHashChain := Some 13,
                  p_globalStateTree := Some 12\<rparr>)],
              globalStateTree startedSync))
   \<and> p_valid ((newProofDoc 2 IndexedStartedTransitionProof ''0x01'' [1] True)
                 \<lparr>p_blindedUserState := Some 11, p_blindedHashChain := Some 13,
                  p_globalStateTree := Some 12\<rparr>)"
  by (simp add: topicHandlers_def startUSTProofEvent_def Let_def exampleEnv_def startedSync_def
      emptyStore_def startedProofAt_def newProofDoc_def)

subsection \<open>AttestationSubmitted\<close>

lemma attestationIndex_902: "attestationIndex 9 0 2 = 902"
  by (simp add: attestationIndex_def parseDecimal_def decimal_small)

text \<open>
  C1 (evaluation of the code). Epoch key 3 of the current epoch 2 holds two valid
  attestations received through proof 1, which has since been spent. An attestation to
  the same key with \<open>toProofIndex = 7\<close> (a valid proof) and \<open>fromProofIndex = 1\<close> is a
  failure case. The handler queues the creation of the row and an update that selects the
  rows whose \<open>proofIndex\<close> is the \<open>fromProofIndex\<close>: after the commit the new row
  (\<open>proofIndex = 7\<close>) still has \<open>valid\<close> unset, and the two earlier valid attestations
  are marked invalid.
\<close>

theorem attestationEvent_spent_fromProof:
  "Attestations (db attestationSync)
     = [exampleAttestation 20 7 (Some True), exampleAttestation 10 4 (Some True),
        exampleAttestation 15 9 (Some False)]
   \<and> topicHandlers exampleEnv attestationSync (attestationAt 9 0 2 7 1)
     = Some (Inr ([CreateAttestation ((exampleAttestation 902 8 None)\<lparr>att_proofIndex := 7\<rparr>),
                   UpdateAttestationValid 2 3 (Some 1) False],
                  globalStateTree attestationSync))
   \<and> Attestations (commit exampleEnv (db attestationSync)
         [CreateAttestation ((exampleAttestation 902 8 None)\<lparr>att_proofIndex := 7\<rparr>),
          UpdateAttestationValid 2 3 (Some 1) False])
     = [exampleAttestation 20 7 (Some False), exampleAttestation 10 4 (Some False),
        exampleAttestation 15 9 (Some False),
        (exampleAttestation 902 8 None)\<lparr>att_proofIndex := 7\<rparr>]"
proof -
  have a: "Attestations (db attestationSync)
     = [exampleAttestation 20 7 (Some True), exampleAttestation 10 4 (Some True),
        exampleAttestation 15 9 (Some False)]"
    by (simp add: attestationSync_def attestedSync_def emptyStore_def)
  have pre: "checkCurrentEpoch (db attestationSync) 2 = None
      \<and> checkEpochKeyRange exampleEnv 3 = None
      \<and> isEpochKeySealed (db attestationSync) 2 3 = None"
    by (simp add: checkCurrentEpoch_def checkEpochKeyRange_def isEpochKeySealed_def
        loadCurrentEpoch_def findOne_def attestationSync_def attestedSync_def emptyStore_def
        exampleEnv_def)
  have ps: "Proofs (db attestationSync) = [exampleProof 7 True None, exampleProof 1 True (Some True)]"
    by (simp add: attestationSync_def)
  have h: "topicHandlers exampleEnv attestationSync (attestationAt 9 0 2 7 1)
     = Some (Inr ([CreateAttestation ((exampleAttestation 902 8 None)\<lparr>att_proofIndex := 7\<rparr>),
                   UpdateAttestationValid 2 3 (Some 1) False],
                  globalStateTree attestationSync))"
    using pre
    by (simp add: topicHandlers_def attestationAt_def attestationEvent_def attestationArgs_def
        Let_def ps findOne_def exampleProof_def newProofDoc_def attestationIndex_902
        exampleAttestation_def)
       (simp add: exampleEnv_def)
  have c: "Attestations (commit exampleEnv (db attestationSync)
         [CreateAttestation ((exampleAttestation 902 8 None)\<lparr>att_proofIndex := 7\<rparr>),
          UpdateAttestationValid 2 3 (Some 1) False])
     = [exampleAttestation 20 7 (Some False), exampleAttestation 10 4 (Some False),
        exampleAttestation 15 9 (Some False),
        (exampleAttestation 902 8 None)\<lparr>att_proofIndex := 7\<rparr>]"
    by (simp add: commit_def a exampleAttestation_def)
  from a h c show ?thesis by blast
qed

subsection \<open>UserStateTransitioned\<close>





lemmas transition_example_defs =
  transitionSync_def findOne_def findStartTransitionProof_def findBlindHC_def
  transitionProofDoc_def startProofDoc_def processedProofDoc_def newProofDoc_def
  loadCurrentEpoch_def emptyStore_def exampleEnv_def checkValidEpoch_def count_def
  transitionedAt_def imt_root_def imt_insert_def newIMT_def confirmedSeven_def


text \<open>
  C4 (evaluation of the code). The user-state-transition proof 3 is valid, its
  start-transition proof 2 and processed-attestations proof 4 are valid and chain, but
  its blinded hash chain 99 is the \<open>outputBlindedHashChain\<close> of no proof among the index
  records. The query \<open>findBlindHC\<close> returns no row, and the handler reads \<open>.index\<close> of
  it: the handler throws, the transaction is dropped and \<open>processEvents\<close> throws again.
\<close>

theorem USTEvent_unmatched_hash_chain:
  "findOne (\<lambda>p. p_index p = 3 \<and> p_event p = IndexedUserStateTransitionProof)
        (Proofs (db (transitionSync [2, 4] 99 []))) = Some (transitionProofDoc [2, 4] 99)
   \<and> blindedHashChains (decodeUserTransitionProof exampleEnv [21, 7, 1, 11, 15, 12, 99, 133]) = [99]
   \<and> findBlindHC (Proofs (db (transitionSync [2, 4] 99 []))) [2, 4] 99 = None
   \<and> topicHandlers exampleEnv (transitionSync [2, 4] 99 []) (transitionedAt 9 1 0)
       = Some (Inl TypeErrorNull)
   \<and> transaction exampleEnv (transitionSync [2, 4] 99 []) (transitionedAt 9 1 0) = Inl TypeErrorNull
   \<and> snd (processEvents exampleEnv (transitionSync [2, 4] 99 []) [transitionedAt 9 1 0])
       = Inl TypeErrorNull"
proof -
  let ?S = "transitionSync [2, 4] 99 []"
  have tp: "findOne (\<lambda>p. p_index p = 3 \<and> p_event p = IndexedUserStateTransitionProof)
        (Proofs (db ?S)) = Some (transitionProofDoc [2, 4] 99)"
    by (simp add: transition_example_defs)
  have d: "blindedHashChains (decodeUserTransitionProof exampleEnv [21, 7, 1, 11, 15, 12, 99, 133]) = [99]"
    by (simp add: exampleEnv_def)
  have f: "findBlindHC (Proofs (db ?S)) [2, 4] 99 = None"
    by (simp add: transition_example_defs)
  have u: "USTEvent exampleEnv ?S (transitionedAt 9 1 0) 2 21 3 = Inl TypeErrorNull"
    by (simp add: USTEvent_def Let_def transition_example_defs)
  have h: "topicHandlers exampleEnv ?S (transitionedAt 9 1 0) = Some (Inl TypeErrorNull)"
    using u by (simp add: topicHandlers_def transitionedAt_def)
  have t: "transaction exampleEnv ?S (transitionedAt 9 1 0) = Inl TypeErrorNull"
    using h by (simp add: transaction_def)
  have pe: "snd (processEvents exampleEnv ?S [transitionedAt 9 1 0]) = Inl TypeErrorNull"
    using h t by (simp add: processEvents_def sortEvents_def)
  from tp d f h t pe show ?thesis by blast
qed

subsection \<open>At most one unsealed epoch\<close>
















end
